theory Spec2Isabelle
  imports Main "HOL-Library.Sublist"
begin

section \<open>Values shared by the handlers\<close>

text \<open>
  A value thrown by a JavaScript operation (or the reason a promise rejects with): a
  \<^verbatim>\<open>TypeError\<close> with its message, an instance of \<^verbatim>\<open>Error\<close> of another class with its
  message, or a value that is no \<^verbatim>\<open>Error\<close> at all. The catch clause of the streaming
  routine only asks whether the value is an instance of \<^verbatim>\<open>Error\<close>, which a \<^verbatim>\<open>TypeError\<close>
  is too, and, if so, reads its \<^verbatim>\<open>message\<close>.
\<close>

datatype thrown = ErrorInstance string | TypeErrorInstance string | NonError

text \<open>How an awaited \<^verbatim>\<open>Promise<void>\<close> settles.\<close>

datatype settled = Fulfilled | Rejected thrown

text \<open>
  JavaScript strings are kept in their UTF-8 encoding (a \<^typ>\<open>char\<close> is a byte), so a
  \<^verbatim>\<open>Uint8Array\<close> chunk is a byte string as well.
\<close>

type_synonym chunk = string

subsection \<open>lib/types.ts\<close>

record QuestConfig =
  dungeonDelayMs :: int
  armorDownloadMs :: int

text \<open>
  A \<^verbatim>\<open>StreamWriter\<close> is an object with two asynchronous methods. They are functions of
  the state \<open>'s\<close> of whatever stands behind the writer: each call returns how its promise
  settles and the state afterwards.
\<close>

record 's StreamWriter =
  write_chunk :: "chunk \<Rightarrow> 's \<Rightarrow> settled \<times> 's"
  close :: "'s \<Rightarrow> settled \<times> 's"

subsection \<open>lib/constants.ts\<close>

definition DEFAULT_QUEST_CONFIG :: QuestConfig where
  "DEFAULT_QUEST_CONFIG = \<lparr>dungeonDelayMs = 2000, armorDownloadMs = 800\<rparr>"

type_synonym HeadersInit = "(string \<times> string) list"

definition RESPONSE_HEADERS :: HeadersInit where
  "RESPONSE_HEADERS =
     [(''Content-Type'', ''text/html; charset=utf-8''),
      (''Transfer-Encoding'', ''chunked''),
      (''X-Content-Type-Options'', ''nosniff''),
      (''Cache-Control'', ''no-store'')]"

section \<open>Numbers in template literals\<close>

text \<open>
  The configuration holds integers. \<^verbatim>\<open>${n}\<close> prints an integer in decimal, with a minus
  sign when it is negative.
\<close>

fun decimal :: "nat \<Rightarrow> string" where
  "decimal n =
     (if n < 10 then [char_of (48 + n)]
      else decimal (n div 10) @ [char_of (48 + n mod 10)])"

definition numberToString :: "int \<Rightarrow> string" where
  "numberToString i = (if i < 0 then ''-'' @ decimal (nat (- i)) else decimal (nat i))"

text \<open>
  \<^verbatim>\<open>${n / 1000}\<close> for an integer \<open>n\<close>: the quotient in decimal with at most three
  fractional digits and no trailing zeros (\<open>2000\<close> gives \<open>2\<close>, \<open>1230\<close> gives \<open>1.23\<close>),
  which is what the double-precision quotient prints as while \<open>\<bar>n\<bar> < 10^15\<close>.
\<close>

definition dropTrailingZeros :: "string \<Rightarrow> string" where
  "dropTrailingZeros ds = rev (dropWhile (\<lambda>c. c = CHR ''0'') (rev ds))"

definition numberToString_div1000 :: "int \<Rightarrow> string" where
  "numberToString_div1000 i =
     (let a = nat \<bar>i\<bar>; whole = a div 1000; frac = a mod 1000;
          three = [char_of (48 + frac div 100), char_of (48 + frac div 10 mod 10),
                   char_of (48 + frac mod 10)]
      in (if i < 0 then ''-'' else []) @ decimal whole @
         (if frac = 0 then [] else ''.'' @ dropTrailingZeros three))"

section \<open>lib/html-templates.ts\<close>

text \<open>
  The template literals, line by line. Characters outside ASCII are spelled as their
  UTF-8 bytes.
\<close>

definition getLegendHTML :: "string" where
  "getLegendHTML =
     ''\<newline>'' @
     ''        <div class=\"legend\">\<newline>'' @
     ''            <div class=\"legend-item\"><span class=\"legend-icon\">'' @ [CHR 0xF0, CHR 0x9F, CHR 0xA6, CHR 0xB8] @ ''</span> <strong>Hero</strong> = Browser</div>\<newline>'' @
     ''            <div class=\"legend-item\"><span class=\"legend-icon\">'' @ [CHR 0xF0, CHR 0x9F, CHR 0xA7, CHR 0x99] @ ''</span> <strong>Quest Giver</strong> = Server</div>\<newline>'' @
     ''            <div class=\"legend-item\"><span class=\"legend-icon\">'' @ [CHR 0xF0, CHR 0x9F, CHR 0x97, CHR 0xBA, CHR 0xEF, CHR 0xB8, CHR 0x8F] @ ''</span> <strong>Map</strong> = &lt;head&gt; tag</div>\<newline>'' @
     ''            <div class=\"legend-item\"><span class=\"legend-icon\">'' @ [CHR 0xF0, CHR 0x9F, CHR 0x9B, CHR 0xA1, CHR 0xEF, CHR 0xB8, CHR 0x8F] @ ''</span> <strong>Heavy Armor</strong> = CSS/JS/Fonts</div>\<newline>'' @
     ''            <div class=\"legend-item\"><span class=\"legend-icon\">'' @ [CHR 0xF0, CHR 0x9F, CHR 0x8F, CHR 0x94, CHR 0xEF, CHR 0xB8, CHR 0x8F] @ ''</span> <strong>Dungeon</strong> = Database</div>\<newline>'' @
     ''            <div class=\"legend-item\"><span class=\"legend-icon\">'' @ [CHR 0xF0, CHR 0x9F, CHR 0x92, CHR 0xB0] @ ''</span> <strong>Treasure</strong> = &lt;body&gt; data</div>\<newline>'' @
     ''        </div>\<newline>'' @
     ''    ''"

definition generateHeadChunk :: "QuestConfig \<Rightarrow> string" where
  "generateHeadChunk config =
     ''<!DOCTYPE html>\<newline>'' @
     ''<html lang=\"en\">\<newline>'' @
     ''<head>\<newline>'' @
     ''    <meta charset=\"UTF-8\">\<newline>'' @
     ''    <meta name=\"viewport\" content=\"width=device-width, initial-scale=1.0\">\<newline>'' @
     ''    <title>'' @ [CHR 0xE2, CHR 0x9A, CHR 0x94, CHR 0xEF, CHR 0xB8, CHR 0x8F] @ '' The Great Streaming Quest</title>\<newline>'' @
     ''    \<newline>'' @
     ''    <!-- \<newline>'' @
     ''        HEAVY ARMOR: External assets that the Hero (Browser) downloads\<newline>'' @
     ''        WHILE the Quest Giver (Server) is in the Dungeon (Database).\<newline>'' @
     ''        This parallel downloading is the KEY performance benefit!\<newline>'' @
     ''    -->\<newline>'' @
     ''    \<newline>'' @
     ''    <!-- Fonts (External Heavy Armor) -->\<newline>'' @
     ''    <link rel=\"preconnect\" href=\"https://fonts.googleapis.com\">\<newline>'' @
     ''    <link rel=\"preconnect\" href=\"https://fonts.gstatic.com\" crossorigin>\<newline>'' @
     ''    <link href=\"https://fonts.googleapis.com/css2?family=MedievalSharp&family=Fira+Code:wght@400;700&display=swap\" rel=\"stylesheet\" onload=\"if(window.QuestLogger) QuestLogger.onCssLoaded();\">\<newline>'' @
     ''    \<newline>'' @
     ''    <!-- Main Stylesheet (Heavy Armor - CSS) -->\<newline>'' @
     ''    <link rel=\"stylesheet\" href=\"/css/styles.css\" onload=\"if(window.QuestLogger) QuestLogger.onCssLoaded();\">\<newline>'' @
     ''    \<newline>'' @
     ''    <!-- Quest Logger (Heavy Armor - JS) -->\<newline>'' @
     ''    <script src=\"/js/quest.js\"></script>\<newline>'' @
     ''    \<newline>'' @
     ''    <!-- Inline fallback timer (in case JS hasn't loaded yet) -->\<newline>'' @
     ''    <script>\<newline>'' @
     ''        // Fallback: Define basic logging if quest.js hasn't loaded yet\<newline>'' @
     ''        if (!window.QuestLogger) {\<newline>'' @
     ''            window.questStartTime = performance.now();\<newline>'' @
     ''            window.logToQuest = function(actor, message, type) {\<newline>'' @
     ''                var log = document.getElementById('quest-entries');\<newline>'' @
     ''                if (!log) return;\<newline>'' @
     ''                var elapsed = (performance.now() - window.questStartTime).toFixed(0).padStart(4, ' ');\<newline>'' @
     ''                var entry = document.createElement('div');\<newline>'' @
     ''                entry.className = 'log-entry';\<newline>'' @
     ''                entry.innerHTML = '<span class=\"timestamp\">[' + elapsed + 'ms]</span> <span class=\"actor ' + type + '\">' + actor + ':</span> <span class=\"message\">' + message + '</span>';\<newline>'' @
     ''                log.appendChild(entry);\<newline>'' @
     ''            };\<newline>'' @
     ''        }\<newline>'' @
     ''    </script>\<newline>'' @
     ''</head>\<newline>'' @
     ''<body>\<newline>'' @
     ''    <a href=\"/\" class=\"home-btn\" title=\"Home\">'' @ [CHR 0xF0, CHR 0x9F, CHR 0x8F, CHR 0xA0] @ ''</a>\<newline>'' @
     ''    <div class=\"container\">\<newline>'' @
     ''        <h1>'' @ [CHR 0xE2, CHR 0x9A, CHR 0x94, CHR 0xEF, CHR 0xB8, CHR 0x8F] @ '' The Great Streaming Quest '' @ [CHR 0xF0, CHR 0x9F, CHR 0x8F, CHR 0xB0] @ ''</h1>\<newline>'' @
     ''        <p class=\"subtitle\">Demonstrating HTML &lt;head&gt; Streaming for Faster Page Loads</p>\<newline>'' @
     ''        \<newline>'' @
     ''        '' @
     getLegendHTML @
     ''\<newline>'' @
     ''        \<newline>'' @
     ''        <div class=\"quest-log\">\<newline>'' @
     ''            <h2>'' @ [CHR 0xF0, CHR 0x9F, CHR 0x93, CHR 0x9C] @ '' Quest Log</h2>\<newline>'' @
     ''            <div id=\"quest-entries\"></div>\<newline>'' @
     ''            \<newline>'' @
     ''            <script>\<newline>'' @
     ''                // Log initial messages - use QuestLogger if available, fallback otherwise\<newline>'' @
     ''                var log = window.QuestLogger ? QuestLogger.log : window.logToQuest;\<newline>'' @
     ''                log('' @ [CHR 0x27, CHR 0xF0, CHR 0x9F, CHR 0xA7, CHR 0x99] @ '' Quest Giver', 'The Map (&lt;head&gt;) has been delivered! I am now descending into the Dungeon to fetch your Treasure...', 'server');\<newline>'' @
     ''                log('' @ [CHR 0x27, CHR 0xF0, CHR 0x9F, CHR 0xA6, CHR 0xB8] @ '' Hero', 'Map received! I can see the quest layout. Now downloading my Heavy Armor (CSS, Fonts, JS)...', 'hero');\<newline>'' @
     ''            </script>\<newline>'' @
     ''            \<newline>'' @
     ''            <div id=\"loading-indicator\" class=\"loading\">\<newline>'' @
     ''                <div class=\"spinner\"></div>\<newline>'' @
     ''                <span>'' @ [CHR 0xF0, CHR 0x9F, CHR 0xA7, CHR 0x99] @ '' Quest Giver is battling Database Dragons in the Dungeon... ('' @
     numberToString_div1000 (dungeonDelayMs config) @
     '' second simulated delay)</span>\<newline>'' @
     ''            </div>\<newline>'' @
     ''        </div>\<newline>''"

definition generateBodyChunk :: "QuestConfig \<Rightarrow> string" where
  "generateBodyChunk config =
     ''\<newline>'' @
     ''        <script>\<newline>'' @
     ''            // Notify QuestLogger that treasure has arrived\<newline>'' @
     ''            if (window.QuestLogger) {\<newline>'' @
     ''                QuestLogger.onTreasureReceived();\<newline>'' @
     ''            } else {\<newline>'' @
     ''                document.getElementById('loading-indicator').classList.add('hidden');\<newline>'' @
     ''                logToQuest('' @ [CHR 0x27, CHR 0xF0, CHR 0x9F, CHR 0xA7, CHR 0x99] @ '' Quest Giver', '' @ [CHR 0x27, CHR 0xF0, CHR 0x9F, CHR 0x8F, CHR 0x86] @ '' I have returned from the Dungeon! The Treasure is being delivered!', 'server');\<newline>'' @
     ''            }\<newline>'' @
     ''        </script>\<newline>'' @
     ''        \<newline>'' @
     ''        <div class=\"treasure-box\">\<newline>'' @
     ''            <h3>'' @ [CHR 0xF0, CHR 0x9F, CHR 0x8F, CHR 0x86] @ '' TREASURE ACQUIRED! '' @ [CHR 0xF0, CHR 0x9F, CHR 0x8F, CHR 0x86] @ ''</h3>\<newline>'' @
     ''            <p>The Quest Giver successfully retrieved the data from the Dungeon (Database)!</p>\<newline>'' @
     ''            \<newline>'' @
     ''            <div class=\"stats\">\<newline>'' @
     ''                <div class=\"stat\">\<newline>'' @
     ''                    <div class=\"stat-value\" id=\"total-time\">--</div>\<newline>'' @
     ''                    <div class=\"stat-label\">Total Quest Time</div>\<newline>'' @
     ''                </div>\<newline>'' @
     ''                <div class=\"stat\">\<newline>'' @
     ''                    <div class=\"stat-value\" id=\"armor-time\">--</div>\<newline>'' @
     ''                    <div class=\"stat-label\">Armor Equipped</div>\<newline>'' @
     ''                </div>\<newline>'' @
     ''                <div class=\"stat\">\<newline>'' @
     ''                    <div class=\"stat-value\" id=\"time-saved\">--</div>\<newline>'' @
     ''                    <div class=\"stat-label\">Time Saved by Streaming</div>\<newline>'' @
     ''                </div>\<newline>'' @
     ''            </div>\<newline>'' @
     ''        </div>\<newline>'' @
     ''        \<newline>'' @
     ''        <script>\<newline>'' @
     ''            // Display final statistics using QuestLogger or fallback\<newline>'' @
     ''            if (window.QuestLogger) {\<newline>'' @
     ''                QuestLogger.showFinalStats('' @
     numberToString (dungeonDelayMs config) @
     '');\<newline>'' @
     ''            } else {\<newline>'' @
     ''                var totalTime = (performance.now() - window.questStartTime).toFixed(0);\<newline>'' @
     ''                document.getElementById('total-time').textContent = totalTime + 'ms';\<newline>'' @
     ''                document.getElementById('armor-time').textContent = '~'' @
     numberToString (armorDownloadMs config) @
     ''ms';\<newline>'' @
     ''                document.getElementById('time-saved').textContent = '~'' @
     numberToString (armorDownloadMs config) @
     ''ms';\<newline>'' @
     ''                logToQuest('' @ [CHR 0x27, CHR 0xF0, CHR 0x9F, CHR 0xA6, CHR 0xB8] @ '' Hero', '' @ [CHR 0x27, CHR 0xF0, CHR 0x9F, CHR 0x92, CHR 0xB0] @ '' Treasure received! Quest complete in ' + totalTime + 'ms!', 'hero');\<newline>'' @
     ''            }\<newline>'' @
     ''        </script>\<newline>'' @
     ''        \<newline>'' @
     ''        <footer class=\"footer\">\<newline>'' @
     ''            For demonstration and educational purposes only. \<newline>'' @
     ''            <a href=\"https://github.com/DavidJKTofan/cf-head-html-streaming-performance\" target=\"_blank\">View on GitHub</a>\<newline>'' @
     ''        </footer>\<newline>'' @
     ''    </div>\<newline>'' @
     ''</body>\<newline>'' @
     ''</html>\<newline>''"

definition generateErrorChunk :: "string \<Rightarrow> string" where
  "generateErrorChunk errorMessage =
     ''<div style=\"color:red;padding:2rem;\">'' @ [CHR 0xE2, CHR 0x9A, CHR 0xA0, CHR 0xEF, CHR 0xB8, CHR 0x8F] @ '' Quest Failed: '' @
     errorMessage @
     ''</div></body></html>''"

section \<open>lib/streaming.ts\<close>

text \<open>\<^verbatim>\<open>new TextEncoder().encode(content)\<close>: strings are already held as UTF-8 bytes.\<close>

definition encodeChunk :: "string \<Rightarrow> chunk" where
  "encodeChunk content = content"

text \<open>
  \<^verbatim>\<open>new Promise((resolve) => setTimeout(resolve, ms))\<close>. The executor hands \<^verbatim>\<open>resolve\<close> to
  the platform timer and never touches \<^verbatim>\<open>reject\<close>; the timer takes any number, reads a
  negative one as 0, and calls its handler once.
\<close>

record TimerPromise =
  firesAfterMs :: nat
  settlesAs :: settled

definition setTimeout :: "settled \<Rightarrow> int \<Rightarrow> TimerPromise" where
  "setTimeout handler ms = \<lparr>firesAfterMs = nat (max 0 ms), settlesAs = handler\<rparr>"

definition simulateDungeonDelay :: "int \<Rightarrow> TimerPromise" where
  "simulateDungeonDelay ms = (let resolve = Fulfilled in setTimeout resolve ms)"

subsection \<open>The platform's TransformStream\<close>

text \<open>
  \<^verbatim>\<open>createStreamingPipeline\<close> builds its writer on a fresh identity \<^verbatim>\<open>TransformStream\<close> of the
  platform, the Workers runtime. A stream is writable, closed or errored (with the stored
  reason, any thrown value). On a writable stream \<^verbatim>\<open>write\<close> enqueues the chunk for the
  readable side and \<^verbatim>\<open>close\<close> closes the stream. On an errored stream both reject with
  the stored reason, and on a closed stream both reject with a \<^verbatim>\<open>TypeError\<close>; a call that
  rejects leaves the stream as it was. The reader is taken to consume what is enqueued.
\<close>

datatype stream_state = Writable | Closed | Errored thrown

record TransformStream =
  state :: stream_state
  enqueued :: "chunk list"

definition new_TransformStream :: TransformStream where
  "new_TransformStream = \<lparr>state = Writable, enqueued = []\<rparr>"

definition rawWriter_write :: "chunk \<Rightarrow> TransformStream \<Rightarrow> settled \<times> TransformStream" where
  "rawWriter_write chunk ts =
     (case state ts of
        Writable \<Rightarrow> (Fulfilled, ts\<lparr>enqueued := enqueued ts @ [chunk]\<rparr>)
      | Closed \<Rightarrow> (Rejected (TypeErrorInstance ''This WritableStream has been closed.''), ts)
      | Errored e \<Rightarrow> (Rejected e, ts))"

definition rawWriter_close :: "TransformStream \<Rightarrow> settled \<times> TransformStream" where
  "rawWriter_close ts =
     (case state ts of
        Writable \<Rightarrow> (Fulfilled, ts\<lparr>state := Closed\<rparr>)
      | Closed \<Rightarrow> (Rejected (TypeErrorInstance ''This WritableStream has been closed.''), ts)
      | Errored e \<Rightarrow> (Rejected e, ts))"

text \<open>
  The pipeline: the fresh stream, whose readable end goes to the response, and the writer
  whose two methods await the raw writer's.
\<close>

record 's StreamingPipeline =
  pipeline_readable :: "'s"
  pipeline_writer :: "'s StreamWriter"

definition createStreamingPipeline :: "TransformStream StreamingPipeline" where
  "createStreamingPipeline =
     \<lparr>pipeline_readable = new_TransformStream,
      pipeline_writer = \<lparr>write_chunk = (\<lambda>chunk ts. rawWriter_write chunk ts),
                         close = (\<lambda>ts. rawWriter_close ts)\<rparr>\<rparr>"

section \<open>Asynchronous functions\<close>

text \<open>
  What a run does, in order: console output, calls of the writer's methods and the
  awaited delay, each call with the way it settled.
\<close>

datatype event =
    ConsoleLog string
  | ConsoleError string thrown
  | WriteCall chunk settled
  | DelayCall int settled
  | CloseCall settled

text \<open>
  The body of an \<^verbatim>\<open>async\<close> function is a task: from the writer's state and the events so
  far to the way it completes (normally, or by a thrown value), the state and the events
  after it.
\<close>

type_synonym 's task = "'s \<times> event list \<Rightarrow> settled \<times> 's \<times> event list"

definition console_log :: "string \<Rightarrow> 's task" where
  "console_log message = (\<lambda>(s, tr). (Fulfilled, s, tr @ [ConsoleLog message]))"

definition console_error :: "string \<Rightarrow> thrown \<Rightarrow> 's task" where
  "console_error message error = (\<lambda>(s, tr). (Fulfilled, s, tr @ [ConsoleError message error]))"

definition await_write :: "'s StreamWriter \<Rightarrow> chunk \<Rightarrow> 's task" where
  "await_write w chunk =
     (\<lambda>(s, tr). case write_chunk w chunk s of (r, s') \<Rightarrow> (r, s', tr @ [WriteCall chunk r]))"

definition await_close :: "'s StreamWriter \<Rightarrow> 's task" where
  "await_close w = (\<lambda>(s, tr). case close w s of (r, s') \<Rightarrow> (r, s', tr @ [CloseCall r]))"

definition await_delay :: "(int \<Rightarrow> settled) \<Rightarrow> int \<Rightarrow> 's task" where
  "await_delay delay ms = (\<lambda>(s, tr). case delay ms of r \<Rightarrow> (r, s, tr @ [DelayCall ms r]))"

text \<open>Statements in sequence: a thrown value skips what follows.\<close>

definition andThen :: "'s task \<Rightarrow> 's task \<Rightarrow> 's task" where
  "andThen first second =
     (\<lambda>st. case first st of
        (Fulfilled, st') \<Rightarrow> second st'
      | (Rejected e, st') \<Rightarrow> (Rejected e, st'))"

text \<open>\<^verbatim>\<open>try { ... } catch (error) { ... }\<close>: the handler runs on what the block threw.\<close>

definition tryCatch :: "'s task \<Rightarrow> (thrown \<Rightarrow> 's task) \<Rightarrow> 's task" where
  "tryCatch block handler =
     (\<lambda>st. case block st of
        (Fulfilled, st') \<Rightarrow> (Fulfilled, st')
      | (Rejected e, st') \<Rightarrow> handler e st')"

text \<open>
  \<^verbatim>\<open>try { ... } finally { ... }\<close>: the finalizer runs however the block completed; when
  it throws, its value replaces the block's completion, otherwise the block's stands.
\<close>

definition tryFinally :: "'s task \<Rightarrow> 's task \<Rightarrow> 's task" where
  "tryFinally block finalizer =
     (\<lambda>st. case block st of
        (r, st') \<Rightarrow>
          (case finalizer st' of
             (Fulfilled, st'') \<Rightarrow> (r, st'')
           | (Rejected e, st'') \<Rightarrow> (Rejected e, st'')))"

text \<open>The promise an \<^verbatim>\<open>async\<close> function returns, with what the run did.\<close>

record 's run =
  promise :: settled
  trace :: "event list"
  final :: "'s"

definition async :: "'s task \<Rightarrow> 's \<Rightarrow> 's run" where
  "async body s = (case body (s, []) of (r, s', tr) \<Rightarrow> \<lparr>promise = r, trace = tr, final = s'\<rparr>)"

section \<open>handlers/stream-quest.ts\<close>

text \<open>
  \<^verbatim>\<open>streamQuestContent\<close>, with the delay function it imports as a parameter, so that a run
  in which the delay throws can be stated.
\<close>

definition errorMessageOf :: "thrown \<Rightarrow> string" where
  "errorMessageOf error =
     (case error of
        ErrorInstance message \<Rightarrow> message
      | TypeErrorInstance message \<Rightarrow> message
      | NonError \<Rightarrow> ''Unknown error'')"

definition streamQuestContent_with ::
  "(int \<Rightarrow> settled) \<Rightarrow> 's StreamWriter \<Rightarrow> QuestConfig \<Rightarrow> 's \<Rightarrow> 's run" where
  "streamQuestContent_with delay writer config =
     async
       (tryFinally
         (tryCatch
           (andThen (console_log ''[Quest] Phase 1: Streaming <head> (The Map)'')
           (andThen (await_write writer (encodeChunk (generateHeadChunk config)))
           (andThen (console_log (''[Quest] Phase 2: Entering Dungeon ('' @
                        numberToString (dungeonDelayMs config) @ ''ms delay)''))
           (andThen (await_delay delay (dungeonDelayMs config))
           (andThen (console_log ''[Quest] Phase 3: Streaming <body> (The Treasure)'')
                    (await_write writer (encodeChunk (generateBodyChunk config))))))))
           (\<lambda>error.
              andThen (console_error ''[Quest] Error during streaming:'' error)
                (let errorMessage = errorMessageOf error
                 in await_write writer (encodeChunk (generateErrorChunk errorMessage)))))
         (andThen (console_log ''[Quest] Stream closed'')
                  (await_close writer)))"

definition streamQuestContent :: "'s StreamWriter \<Rightarrow> QuestConfig \<Rightarrow> 's \<Rightarrow> 's run" where
  "streamQuestContent writer config =
     streamQuestContent_with (\<lambda>ms. settlesAs (simulateDungeonDelay ms)) writer config"


section \<open>Responses\<close>

text \<open>
  \<^verbatim>\<open>new Response(body, init)\<close> of the platform: a body that is a readable stream or a
  string, the headers of \<open>init\<close>, and status 200 unless \<open>init\<close> gives one.
\<close>

datatype BodyInit = ReadableStreamBody | StringBody string

record ResponseInit =
  init_status :: "nat option"
  init_headers :: HeadersInit

record Response =
  status :: nat
  headers :: HeadersInit
  body :: BodyInit

definition new_Response :: "BodyInit \<Rightarrow> ResponseInit \<Rightarrow> Response" where
  "new_Response b init =
     \<lparr>status = (case init_status init of None \<Rightarrow> 200 | Some n \<Rightarrow> n),
      headers = init_headers init,
      body = b\<rparr>"

subsection \<open>handleStreamQuest\<close>

text \<open>
  What the handler leaves behind: the response it returns, and the promise of the
  streaming routine that it hands to \<^verbatim>\<open>ctx.waitUntil\<close>. The handler never awaits that
  promise. The pipeline constructor is a parameter of the first definition, so that the
  handler can be stated over a channel whose writes fail. (A caller that passes no config
  gets \<open>DEFAULT_QUEST_CONFIG\<close>; here the config is always given.)
\<close>

record 's StreamQuestHandled =
  response :: Response
  waitUntil :: "'s run"

definition handleStreamQuest_with ::
  "'s StreamingPipeline \<Rightarrow> 'request \<Rightarrow> 'env \<Rightarrow> QuestConfig \<Rightarrow> 's StreamQuestHandled" where
  "handleStreamQuest_with createPipeline request env config =
     (let readable = pipeline_readable createPipeline;
          writer = pipeline_writer createPipeline
      in \<lparr>response = new_Response ReadableStreamBody
                         \<lparr>init_status = None, init_headers = RESPONSE_HEADERS\<rparr>,
          waitUntil = streamQuestContent writer config readable\<rparr>)"

definition handleStreamQuest ::
  "'request \<Rightarrow> 'env \<Rightarrow> QuestConfig \<Rightarrow> TransformStream StreamQuestHandled" where
  "handleStreamQuest request env config =
     handleStreamQuest_with createStreamingPipeline request env config"

section \<open>handlers/no-stream-quest.ts\<close>

definition generateFullPageHTML :: "QuestConfig \<Rightarrow> int \<Rightarrow> string" where
  "generateFullPageHTML config dbTime =
     ''<!DOCTYPE html>\<newline>'' @
     ''<html lang=\"en\">\<newline>'' @
     ''<head>\<newline>'' @
     ''    <meta charset=\"UTF-8\">\<newline>'' @
     ''    <meta name=\"viewport\" content=\"width=device-width, initial-scale=1.0\">\<newline>'' @
     ''    <title>'' @ [CHR 0xE2, CHR 0x9D, CHR 0x8C] @ '' Traditional (No Streaming)</title>\<newline>'' @
     ''    \<newline>'' @
     ''    <!-- \<newline>'' @
     ''        PROBLEM: The browser only sees this NOW, after waiting '' @
     numberToString dbTime @
     ''ms!\<newline>'' @
     ''        It could have been downloading these assets during that time.\<newline>'' @
     ''    -->\<newline>'' @
     ''    <link rel=\"preconnect\" href=\"https://fonts.googleapis.com\">\<newline>'' @
     ''    <link rel=\"preconnect\" href=\"https://fonts.gstatic.com\" crossorigin>\<newline>'' @
     ''    <link href=\"https://fonts.googleapis.com/css2?family=MedievalSharp&family=Fira+Code:wght@400;700&display=swap\" rel=\"stylesheet\">\<newline>'' @
     ''    <link rel=\"stylesheet\" href=\"/css/styles.css\">\<newline>'' @
     ''    \<newline>'' @
     ''    <script>\<newline>'' @
     ''        const pageReceivedTime = performance.now();\<newline>'' @
     ''        window.noStreamState = { \<newline>'' @
     ''            pageReceivedTime,\<newline>'' @
     ''            cssLoadedTime: null,\<newline>'' @
     ''            jsLoadedTime: null,\<newline>'' @
     ''            allReadyTime: null \<newline>'' @
     ''        };\<newline>'' @
     ''    </script>\<newline>'' @
     ''    <script src=\"/js/quest.js\"></script>\<newline>'' @
     ''</head>\<newline>'' @
     ''<body>\<newline>'' @
     ''    <a href=\"/\" class=\"home-btn\" title=\"Home\">'' @ [CHR 0xF0, CHR 0x9F, CHR 0x8F, CHR 0xA0] @ ''</a>\<newline>'' @
     ''    <div class=\"container\">\<newline>'' @
     ''        <h1 style=\"background: linear-gradient(135deg, #ff4444, #cc0000); -webkit-background-clip: text; -webkit-text-fill-color: transparent;\">'' @ [CHR 0xE2, CHR 0x9D, CHR 0x8C] @ '' Traditional Approach (No Streaming)</h1>\<newline>'' @
     ''        <p class=\"subtitle\">The browser waited '' @
     numberToString (dungeonDelayMs config) @
     ''ms before receiving ANY HTML</p>\<newline>'' @
     ''        \<newline>'' @
     ''        <div class=\"legend\" style=\"border-color: #ff4444;\">\<newline>'' @
     ''            <div class=\"legend-item\"><span class=\"legend-icon\">'' @ [CHR 0xE2, CHR 0x8F, CHR 0xB3] @ ''</span> <strong>Server waited</strong> '' @
     numberToString dbTime @
     ''ms</div>\<newline>'' @
     ''            <div class=\"legend-item\"><span class=\"legend-icon\">'' @ [CHR 0xF0, CHR 0x9F, CHR 0x93, CHR 0xA5] @ ''</span> <strong>Then</strong> sent HTML</div>\<newline>'' @
     ''            <div class=\"legend-item\"><span class=\"legend-icon\">'' @ [CHR 0xF0, CHR 0x9F, CHR 0x90, CHR 0x8C] @ ''</span> <strong>Then</strong> browser downloads CSS/JS</div>\<newline>'' @
     ''            <div class=\"legend-item\"><span class=\"legend-icon\">'' @ [CHR 0xF0, CHR 0x9F, CHR 0x93, CHR 0x8A] @ ''</span> <strong>Total</strong> = Sequential time</div>\<newline>'' @
     ''        </div>\<newline>'' @
     ''        \<newline>'' @
     ''        <div class=\"quest-log\">\<newline>'' @
     ''            <h2>'' @ [CHR 0xF0, CHR 0x9F, CHR 0x93, CHR 0x9C] @ '' Timeline (Sequential - Slow!)</h2>\<newline>'' @
     ''            <div id=\"quest-entries\"></div>\<newline>'' @
     ''            \<newline>'' @
     ''            <script>\<newline>'' @
     ''                var log = window.QuestLogger ? QuestLogger.log : window.logToQuest;\<newline>'' @
     ''                if (!log) {\<newline>'' @
     ''                    log = function(actor, msg, type) {\<newline>'' @
     ''                        var el = document.getElementById('quest-entries');\<newline>'' @
     ''                        el.innerHTML += '<div class=\"log-entry\"><span class=\"actor ' + type + '\">' + actor + ':</span> ' + msg + '</div>';\<newline>'' @
     ''                    };\<newline>'' @
     ''                }\<newline>'' @
     ''                log('' @ [CHR 0x27, CHR 0xE2, CHR 0x8F, CHR 0xB3] @ '' Server', 'I waited '' @
     numberToString dbTime @
     ''ms in the Dungeon BEFORE sending you anything...', 'server');\<newline>'' @
     ''                log('' @ [CHR 0x27, CHR 0xF0, CHR 0x9F, CHR 0xA6, CHR 0xB8] @ '' Browser', 'I just received the HTML! NOW I can start downloading CSS/JS...', 'hero');\<newline>'' @
     ''            </script>\<newline>'' @
     ''        </div>\<newline>'' @
     ''        \<newline>'' @
     ''        <script>\<newline>'' @
     ''            // Track when CSS/JS finish loading\<newline>'' @
     ''            var checkCount = 0;\<newline>'' @
     ''            function checkAssetsLoaded() {\<newline>'' @
     ''                checkCount++;\<newline>'' @
     ''                var state = window.noStreamState;\<newline>'' @
     ''                \<newline>'' @
     ''                // Check if fonts are loaded (proxy for CSS)\<newline>'' @
     ''                if (!state.cssLoadedTime && document.fonts && document.fonts.status === 'loaded') {\<newline>'' @
     ''                    state.cssLoadedTime = performance.now();\<newline>'' @
     ''                }\<newline>'' @
     ''                \<newline>'' @
     ''                // Check if our QuestLogger is ready (proxy for JS)\<newline>'' @
     ''                if (!state.jsLoadedTime && window.QuestLogger && window.QuestLogger.state) {\<newline>'' @
     ''                    state.jsLoadedTime = performance.now();\<newline>'' @
     ''                }\<newline>'' @
     ''                \<newline>'' @
     ''                if (state.cssLoadedTime && state.jsLoadedTime) {\<newline>'' @
     ''                    state.allReadyTime = performance.now();\<newline>'' @
     ''                    showFinalStats();\<newline>'' @
     ''                } else if (checkCount < 100) {\<newline>'' @
     ''                    setTimeout(checkAssetsLoaded, 50);\<newline>'' @
     ''                } else {\<newline>'' @
     ''                    // Fallback after 5 seconds\<newline>'' @
     ''                    state.allReadyTime = performance.now();\<newline>'' @
     ''                    showFinalStats();\<newline>'' @
     ''                }\<newline>'' @
     ''            }\<newline>'' @
     ''            \<newline>'' @
     ''            function showFinalStats() {\<newline>'' @
     ''                var state = window.noStreamState;\<newline>'' @
     ''                var totalTime = state.allReadyTime;\<newline>'' @
     ''                var assetTime = totalTime - state.pageReceivedTime;\<newline>'' @
     ''                \<newline>'' @
     ''                var log = window.QuestLogger ? QuestLogger.log : window.logToQuest;\<newline>'' @
     ''                log('' @ [CHR 0x27, CHR 0xF0, CHR 0x9F, CHR 0xA6, CHR 0xB8] @ '' Browser', '' @ [CHR 0x27, CHR 0xF0, CHR 0x9F, CHR 0x9B, CHR 0xA1, CHR 0xEF, CHR 0xB8, CHR 0x8F] @ '' CSS/JS finally loaded after ' + assetTime.toFixed(0) + 'ms (started AFTER server delay)', 'hero');\<newline>'' @
     ''                log('' @ [CHR 0x27, CHR 0xF0, CHR 0x9F, CHR 0x93, CHR 0x8A] @ '' System', '<strong style=\"color:#ff4444\">TOTAL TIME: ~' + ('' @
     numberToString dbTime @
     '' + assetTime).toFixed(0) + 'ms</strong> ('' @
     numberToString dbTime @
     ''ms server + ' + assetTime.toFixed(0) + 'ms assets = SEQUENTIAL)', 'system');\<newline>'' @
     ''                \<newline>'' @
     ''                // Show comparison box\<newline>'' @
     ''                document.getElementById('comparison-stats').classList.remove('hidden');\<newline>'' @
     ''                document.getElementById('server-wait').textContent = '' @ [CHR 0x27] @
     numberToString dbTime @
     ''ms';\<newline>'' @
     ''                document.getElementById('asset-download').textContent = assetTime.toFixed(0) + 'ms';\<newline>'' @
     ''                document.getElementById('total-sequential').textContent = ('' @
     numberToString dbTime @
     '' + assetTime).toFixed(0) + 'ms';\<newline>'' @
     ''            }\<newline>'' @
     ''            \<newline>'' @
     ''            setTimeout(checkAssetsLoaded, 100);\<newline>'' @
     ''        </script>\<newline>'' @
     ''        \<newline>'' @
     ''        <div id=\"comparison-stats\" class=\"treasure-box hidden\" style=\"border-color: #ff4444; background: linear-gradient(135deg, #2d0000, #3d0000);\">\<newline>'' @
     ''            <h3 style=\"color: #ff4444;\">'' @ [CHR 0xE2, CHR 0x9D, CHR 0x8C] @ '' Sequential Loading (Slow)</h3>\<newline>'' @
     ''            <p style=\"color: #d49494;\">Assets downloaded AFTER server finished - time wasted!</p>\<newline>'' @
     ''            \<newline>'' @
     ''            <div class=\"stats\">\<newline>'' @
     ''                <div class=\"stat\">\<newline>'' @
     ''                    <div class=\"stat-value\" id=\"server-wait\" style=\"color: #ff4444;\">--</div>\<newline>'' @
     ''                    <div class=\"stat-label\">Server Wait</div>\<newline>'' @
     ''                </div>\<newline>'' @
     ''                <div class=\"stat\">\<newline>'' @
     ''                    <div class=\"stat-value\" id=\"asset-download\" style=\"color: #ff4444;\">--</div>\<newline>'' @
     ''                    <div class=\"stat-label\">Asset Download</div>\<newline>'' @
     ''                </div>\<newline>'' @
     ''                <div class=\"stat\">\<newline>'' @
     ''                    <div class=\"stat-value\" id=\"total-sequential\" style=\"color: #ff4444;\">--</div>\<newline>'' @
     ''                    <div class=\"stat-label\">Total (Sequential)</div>\<newline>'' @
     ''                </div>\<newline>'' @
     ''            </div>\<newline>'' @
     ''            \<newline>'' @
     ''            <p style=\"margin-top: 1rem; color: #888;\">\<newline>'' @
     ''                <a href=\"/quest\" style=\"color: #3fb950;\">'' @ [CHR 0xE2, CHR 0x86, CHR 0x92] @ '' Try the Streaming version</a> to see the difference!\<newline>'' @
     ''            </p>\<newline>'' @
     ''        </div>\<newline>'' @
     ''        \<newline>'' @
     ''        <footer class=\"footer\">\<newline>'' @
     ''            For demonstration and educational purposes only. \<newline>'' @
     ''            <a href=\"https://github.com/DavidJKTofan/cf-head-html-streaming-performance\" target=\"_blank\">View on GitHub</a>\<newline>'' @
     ''        </footer>\<newline>'' @
     ''    </div>\<newline>'' @
     ''</body>\<newline>'' @
     ''</html>''"

text \<open>
  \<^verbatim>\<open>handleNoStreamQuest\<close>. \<open>clock\<close> is the reading of \<^verbatim>\<open>Date.now()\<close> before the delay,
  and by how many milliseconds the handler goes on later than the awaited timer fires
  (the platform runs a timer's handler no sooner than after its delay). The promise
  settles with the response, or rejects with what the awaited delay threw; as above, the
  delay function is a parameter of the first definition. \<open>respondedAt\<close> is the time at
  which the handler goes on after the \<^verbatim>\<open>await\<close>, the second reading of \<^verbatim>\<open>Date.now()\<close>.
\<close>

record NoStreamRun =
  settles :: "thrown + Response"
  did :: "event list"
  respondedAt :: int

definition handleNoStreamQuest_with ::
  "(int \<Rightarrow> TimerPromise) \<Rightarrow> int \<times> nat \<Rightarrow> 'request \<Rightarrow> 'env \<Rightarrow> QuestConfig \<Rightarrow> NoStreamRun" where
  "handleNoStreamQuest_with delay clock request env config =
     (let started = ConsoleLog ''[No-Stream Quest] Starting - will wait for all data before responding'';
          startTime = fst clock;
          awaited = delay (dungeonDelayMs config);
          resumed = startTime + int (firesAfterMs awaited) + int (snd clock)
      in case settlesAs awaited of
           Rejected e \<Rightarrow>
             \<lparr>settles = Inl e,
              did = [started, DelayCall (dungeonDelayMs config) (Rejected e)],
              respondedAt = resumed\<rparr>
         | Fulfilled \<Rightarrow>
             (let dbTime = resumed - startTime;
                  html = generateFullPageHTML config dbTime
              in \<lparr>settles = Inr (new_Response (StringBody html)
                     \<lparr>init_status = None,
                      init_headers =
                        [(''Content-Type'', ''text/html; charset=utf-8''),
                         (''X-Content-Type-Options'', ''nosniff''),
                         (''Cache-Control'', ''no-store'')]\<rparr>),
                  did = [started, DelayCall (dungeonDelayMs config) Fulfilled,
                         ConsoleLog (''[No-Stream Quest] Database query complete after '' @
                           numberToString dbTime @ ''ms'')],
                  respondedAt = resumed\<rparr>))"

definition handleNoStreamQuest ::
  "int \<times> nat \<Rightarrow> 'request \<Rightarrow> 'env \<Rightarrow> QuestConfig \<Rightarrow> NoStreamRun" where
  "handleNoStreamQuest clock request env config =
     handleNoStreamQuest_with simulateDungeonDelay clock request env config"

section \<open>Reading a run\<close>

fun is_close :: "event \<Rightarrow> bool" where
  "is_close (CloseCall r) = True"
| "is_close ev = False"

fun is_rejected :: "event \<Rightarrow> bool" where
  "is_rejected (WriteCall chunk (Rejected e)) = True"
| "is_rejected (DelayCall ms (Rejected e)) = True"
| "is_rejected (CloseCall (Rejected e)) = True"
| "is_rejected ev = False"

text \<open>
  The state a writer is in after the calls of a log have been made on it, one after the
  other, from a given state; and whether every call of the log settled the way the
  writer's method (or the delay function) settles when called at that point.
\<close>

fun apply_calls :: "'s StreamWriter \<Rightarrow> 's \<Rightarrow> event list \<Rightarrow> 's" where
  "apply_calls w s [] = s"
| "apply_calls w s (WriteCall chunk r # evs) = apply_calls w (snd (write_chunk w chunk s)) evs"
| "apply_calls w s (CloseCall r # evs) = apply_calls w (snd (close w s)) evs"
| "apply_calls w s (ev # evs) = apply_calls w s evs"

fun settled_as_logged :: "(int \<Rightarrow> settled) \<Rightarrow> 's StreamWriter \<Rightarrow> 's \<Rightarrow> event list \<Rightarrow> bool" where
  "settled_as_logged delay w s [] = True"
| "settled_as_logged delay w s (WriteCall chunk r # evs) =
     (fst (write_chunk w chunk s) = r \<and> settled_as_logged delay w (snd (write_chunk w chunk s)) evs)"
| "settled_as_logged delay w s (CloseCall r # evs) =
     (fst (close w s) = r \<and> settled_as_logged delay w (snd (close w s)) evs)"
| "settled_as_logged delay w s (DelayCall ms r # evs) =
     (delay ms = r \<and> settled_as_logged delay w s evs)"
| "settled_as_logged delay w s (ev # evs) = settled_as_logged delay w s evs"

fun rejects_with_TypeError :: "settled \<Rightarrow> bool" where
  "rejects_with_TypeError (Rejected (TypeErrorInstance message)) = True"
| "rejects_with_TypeError r = False"

text \<open>An event with the bytes of a written chunk left out.\<close>

fun without_text :: "event \<Rightarrow> event" where
  "without_text (WriteCall chunk r) = WriteCall [] r"
| "without_text ev = ev"

fun delay_fulfilled :: "event \<Rightarrow> bool" where
  "delay_fulfilled (DelayCall ms (Rejected e)) = False"
| "delay_fulfilled ev = True"

subsection \<open>Writers for the examples\<close>

text \<open>
  A writer whose first \<^verbatim>\<open>write\<close> rejects and whose later calls resolve; its state counts
  the writes.
\<close>

definition first_write_fails :: "nat StreamWriter" where
  "first_write_fails =
     \<lparr>write_chunk = (\<lambda>chunk n. (if n = 0 then Rejected (ErrorInstance ''boom'') else Fulfilled, Suc n)),
      close = (\<lambda>n. (Fulfilled, n))\<rparr>"

text \<open>A writer whose writes resolve and whose \<^verbatim>\<open>close\<close> rejects.\<close>

definition close_fails :: "unit StreamWriter" where
  "close_fails =
     \<lparr>write_chunk = (\<lambda>chunk u. (Fulfilled, u)),
      close = (\<lambda>u. (Rejected (ErrorInstance ''close failed''), u))\<rparr>"

section \<open>The streaming routine\<close>

lemmas task_defs =
  async_def tryFinally_def tryCatch_def andThen_def console_log_def console_error_def
  await_write_def await_close_def await_delay_def Let_def

lemmas run_defs =
  streamQuestContent_def streamQuestContent_with_def task_defs
  simulateDungeonDelay_def setTimeout_def

lemma is_rejected_iff:
  "is_rejected (WriteCall c r) = (r \<noteq> Fulfilled)"
  "is_rejected (DelayCall ms r) = (r \<noteq> Fulfilled)"
  "is_rejected (CloseCall r) = (r \<noteq> Fulfilled)"
  by (cases r; simp)+

subsection \<open>When the head write throws\<close>

text \<open>
  C1, as the specification states it: when the head write throws, the routine closes the
  channel and writes nothing further. The routine does otherwise. The head write stands
  inside the guarded block, so its exception reaches the catch clause, which writes the
  error chunk. Against a writer whose first write rejects with \<open>Error("boom")\<close> and
  whose later calls resolve, the error chunk is written, and accepted, after the failed
  head write.
\<close>

theorem head_failure_counterexample:
  "trace (streamQuestContent first_write_fails DEFAULT_QUEST_CONFIG 0) =
     [ConsoleLog ''[Quest] Phase 1: Streaming <head> (The Map)'',
      WriteCall (encodeChunk (generateHeadChunk DEFAULT_QUEST_CONFIG))
        (Rejected (ErrorInstance ''boom'')),
      ConsoleError ''[Quest] Error during streaming:'' (ErrorInstance ''boom''),
      WriteCall (encodeChunk (generateErrorChunk ''boom'')) Fulfilled,
      ConsoleLog ''[Quest] Stream closed'',
      CloseCall Fulfilled]"
  by (simp add: run_defs first_write_fails_def errorMessageOf_def)

text \<open>
  C1, amended: when the head write throws, the routine awaits no delay and writes no body
  chunk; it attempts one further write, the error chunk with the message of what was
  thrown, and then calls \<open>close\<close>.
\<close>

theorem head_failure_path:
  assumes "fst (write_chunk writer (encodeChunk (generateHeadChunk config)) s) = Rejected e"
  shows "\<exists>r rc. trace (streamQuestContent_with delay writer config s) =
     [ConsoleLog ''[Quest] Phase 1: Streaming <head> (The Map)'',
      WriteCall (encodeChunk (generateHeadChunk config)) (Rejected e),
      ConsoleError ''[Quest] Error during streaming:'' e,
      WriteCall (encodeChunk (generateErrorChunk (errorMessageOf e))) r,
      ConsoleLog ''[Quest] Stream closed'',
      CloseCall rc]"
  using assms
  by (auto simp add: streamQuestContent_with_def task_defs split: prod.splits settled.splits)

theorem head_failure_path_witness:
  "fst (write_chunk first_write_fails (encodeChunk (generateHeadChunk DEFAULT_QUEST_CONFIG)) 0)
     = Rejected (ErrorInstance ''boom'')
   \<and> (\<exists>r rc. trace (streamQuestContent_with (\<lambda>ms. Fulfilled) first_write_fails
                        DEFAULT_QUEST_CONFIG 0) =
     [ConsoleLog ''[Quest] Phase 1: Streaming <head> (The Map)'',
      WriteCall (encodeChunk (generateHeadChunk DEFAULT_QUEST_CONFIG))
        (Rejected (ErrorInstance ''boom'')),
      ConsoleError ''[Quest] Error during streaming:'' (ErrorInstance ''boom''),
      WriteCall (encodeChunk (generateErrorChunk (errorMessageOf (ErrorInstance ''boom'')))) r,
      ConsoleLog ''[Quest] Stream closed'',
      CloseCall rc])"
proof -
  have h: "fst (write_chunk first_write_fails
                  (encodeChunk (generateHeadChunk DEFAULT_QUEST_CONFIG)) 0)
           = Rejected (ErrorInstance ''boom'')"
    by (simp add: first_write_fails_def)
  show ?thesis
    using h head_failure_path [OF h, of "\<lambda>ms. Fulfilled"] by simp
qed

subsection \<open>How the returned promise settles\<close>

text \<open>
  C2, as the specification states it: the promise of the streaming routine never rejects,
  whatever throws. The routine awaits \<open>close\<close> in its finally block without a handler of
  its own: against a writer whose writes resolve and whose \<open>close\<close> rejects, the promise
  rejects with what \<open>close\<close> threw.
\<close>

theorem close_failure_counterexample:
  "promise (streamQuestContent close_fails DEFAULT_QUEST_CONFIG ()) =
     Rejected (ErrorInstance ''close failed'')"
  by (simp add: run_defs close_fails_def)

text \<open>
  The four ways a run can go, by how the calls settle: the head write rejects; the delay
  rejects; the body write rejects; none of the three rejects. Each gives the whole run:
  the promise, the log and the writer's state at the end.
\<close>

lemma run_head_rejected:
  assumes "write_chunk writer (encodeChunk (generateHeadChunk config)) s = (Rejected e, s1)"
      and "write_chunk writer (encodeChunk (generateErrorChunk (errorMessageOf e))) s1 = (r, s2)"
      and "close writer s2 = (rc, s3)"
  shows "streamQuestContent_with delay writer config s =
     \<lparr>promise = (case rc of Fulfilled \<Rightarrow> r | Rejected x \<Rightarrow> Rejected x),
      trace = [ConsoleLog ''[Quest] Phase 1: Streaming <head> (The Map)'',
               WriteCall (encodeChunk (generateHeadChunk config)) (Rejected e),
               ConsoleError ''[Quest] Error during streaming:'' e,
               WriteCall (encodeChunk (generateErrorChunk (errorMessageOf e))) r,
               ConsoleLog ''[Quest] Stream closed'',
               CloseCall rc],
      final = s3\<rparr>"
  using assms
  by (cases rc; cases r) (simp_all add: streamQuestContent_with_def task_defs)

lemma run_delay_rejected:
  assumes "write_chunk writer (encodeChunk (generateHeadChunk config)) s = (Fulfilled, s1)"
      and "delay (dungeonDelayMs config) = Rejected e"
      and "write_chunk writer (encodeChunk (generateErrorChunk (errorMessageOf e))) s1 = (r, s2)"
      and "close writer s2 = (rc, s3)"
  shows "streamQuestContent_with delay writer config s =
     \<lparr>promise = (case rc of Fulfilled \<Rightarrow> r | Rejected x \<Rightarrow> Rejected x),
      trace = [ConsoleLog ''[Quest] Phase 1: Streaming <head> (The Map)'',
               WriteCall (encodeChunk (generateHeadChunk config)) Fulfilled,
               ConsoleLog (''[Quest] Phase 2: Entering Dungeon ('' @
                  numberToString (dungeonDelayMs config) @ ''ms delay)''),
               DelayCall (dungeonDelayMs config) (Rejected e),
               ConsoleError ''[Quest] Error during streaming:'' e,
               WriteCall (encodeChunk (generateErrorChunk (errorMessageOf e))) r,
               ConsoleLog ''[Quest] Stream closed'',
               CloseCall rc],
      final = s3\<rparr>"
  using assms
  by (cases rc; cases r) (simp_all add: streamQuestContent_with_def task_defs)

lemma run_body_rejected:
  assumes "write_chunk writer (encodeChunk (generateHeadChunk config)) s = (Fulfilled, s1)"
      and "delay (dungeonDelayMs config) = Fulfilled"
      and "write_chunk writer (encodeChunk (generateBodyChunk config)) s1 = (Rejected e, s2)"
      and "write_chunk writer (encodeChunk (generateErrorChunk (errorMessageOf e))) s2 = (r, s3)"
      and "close writer s3 = (rc, s4)"
  shows "streamQuestContent_with delay writer config s =
     \<lparr>promise = (case rc of Fulfilled \<Rightarrow> r | Rejected x \<Rightarrow> Rejected x),
      trace = [ConsoleLog ''[Quest] Phase 1: Streaming <head> (The Map)'',
               WriteCall (encodeChunk (generateHeadChunk config)) Fulfilled,
               ConsoleLog (''[Quest] Phase 2: Entering Dungeon ('' @
                  numberToString (dungeonDelayMs config) @ ''ms delay)''),
               DelayCall (dungeonDelayMs config) Fulfilled,
               ConsoleLog ''[Quest] Phase 3: Streaming <body> (The Treasure)'',
               WriteCall (encodeChunk (generateBodyChunk config)) (Rejected e),
               ConsoleError ''[Quest] Error during streaming:'' e,
               WriteCall (encodeChunk (generateErrorChunk (errorMessageOf e))) r,
               ConsoleLog ''[Quest] Stream closed'',
               CloseCall rc],
      final = s4\<rparr>"
  using assms
  by (cases rc; cases r) (simp_all add: streamQuestContent_with_def task_defs)

lemma run_all_fulfilled:
  assumes "write_chunk writer (encodeChunk (generateHeadChunk config)) s = (Fulfilled, s1)"
      and "delay (dungeonDelayMs config) = Fulfilled"
      and "write_chunk writer (encodeChunk (generateBodyChunk config)) s1 = (Fulfilled, s2)"
      and "close writer s2 = (rc, s3)"
  shows "streamQuestContent_with delay writer config s =
     \<lparr>promise = rc,
      trace = [ConsoleLog ''[Quest] Phase 1: Streaming <head> (The Map)'',
               WriteCall (encodeChunk (generateHeadChunk config)) Fulfilled,
               ConsoleLog (''[Quest] Phase 2: Entering Dungeon ('' @
                  numberToString (dungeonDelayMs config) @ ''ms delay)''),
               DelayCall (dungeonDelayMs config) Fulfilled,
               ConsoleLog ''[Quest] Phase 3: Streaming <body> (The Treasure)'',
               WriteCall (encodeChunk (generateBodyChunk config)) Fulfilled,
               ConsoleLog ''[Quest] Stream closed'',
               CloseCall rc],
      final = s3\<rparr>"
  using assms
  by (cases rc) (simp_all add: streamQuestContent_with_def task_defs)

text \<open>
  C2, amended: an exception of the head write, of the delay or of the body write is
  caught inside the routine and answered with the error chunk. The promise resolves
  exactly when \<open>close\<close> resolves and at most one call of the run has rejected; it rejects
  when \<open>close\<close> rejects, and when the write of the error chunk rejects. In full: either
  the head write, the delay and the body write all resolve, and the promise settles as
  \<open>close\<close> does; or the first call to reject is one of these three, the routine logs
  what it threw, writes the error chunk with its message, then closes, and the promise
  settles as the write of the error chunk does unless \<open>close\<close> rejects, which then
  decides.
\<close>

theorem failures_answered_in_band:
  "((promise (streamQuestContent_with delay writer config s) = Fulfilled) =
      (last (trace (streamQuestContent_with delay writer config s)) = CloseCall Fulfilled
       \<and> length (filter is_rejected (trace (streamQuestContent_with delay writer config s))) \<le> 1))
   \<and> ((\<exists>rc. trace (streamQuestContent_with delay writer config s) =
            [ConsoleLog ''[Quest] Phase 1: Streaming <head> (The Map)'',
             WriteCall (encodeChunk (generateHeadChunk config)) Fulfilled,
             ConsoleLog (''[Quest] Phase 2: Entering Dungeon ('' @
                numberToString (dungeonDelayMs config) @ ''ms delay)''),
             DelayCall (dungeonDelayMs config) Fulfilled,
             ConsoleLog ''[Quest] Phase 3: Streaming <body> (The Treasure)'',
             WriteCall (encodeChunk (generateBodyChunk config)) Fulfilled,
             ConsoleLog ''[Quest] Stream closed'',
             CloseCall rc]
          \<and> promise (streamQuestContent_with delay writer config s) = rc)
      \<or> (\<exists>before failed e r rc.
            trace (streamQuestContent_with delay writer config s) =
              before @
              [failed,
               ConsoleError ''[Quest] Error during streaming:'' e,
               WriteCall (encodeChunk (generateErrorChunk (errorMessageOf e))) r,
               ConsoleLog ''[Quest] Stream closed'',
               CloseCall rc]
          \<and> (failed = WriteCall (encodeChunk (generateHeadChunk config)) (Rejected e)
               \<or> failed = DelayCall (dungeonDelayMs config) (Rejected e)
               \<or> failed = WriteCall (encodeChunk (generateBodyChunk config)) (Rejected e))
          \<and> filter is_rejected before = []
          \<and> promise (streamQuestContent_with delay writer config s) =
               (case rc of Fulfilled \<Rightarrow> r | Rejected x \<Rightarrow> Rejected x)))"
  (is "?iff \<and> (?good \<or> ?bad)")
proof -
  let ?R = "streamQuestContent_with delay writer config s"
  have iff: ?iff
    by (auto simp add: streamQuestContent_with_def task_defs is_rejected_iff
             split: prod.splits settled.splits)
  obtain r1 s1 where w1:
    "write_chunk writer (encodeChunk (generateHeadChunk config)) s = (r1, s1)"
    by (cases "write_chunk writer (encodeChunk (generateHeadChunk config)) s")
  have shape: "?good \<or> ?bad"
  proof (cases r1)
    case (Rejected e)
    obtain r s2 where w2:
      "write_chunk writer (encodeChunk (generateErrorChunk (errorMessageOf e))) s1 = (r, s2)"
      by (cases "write_chunk writer (encodeChunk (generateErrorChunk (errorMessageOf e))) s1")
    obtain rc s3 where c: "close writer s2 = (rc, s3)"
      by (cases "close writer s2")
    note run = run_head_rejected [OF w1 [unfolded Rejected] w2 c, of delay]
    have ?bad
      apply (rule exI [of _ "[ConsoleLog ''[Quest] Phase 1: Streaming <head> (The Map)'']"])
      apply (rule exI [of _ "WriteCall (encodeChunk (generateHeadChunk config)) (Rejected e)"])
      apply (rule exI [of _ e], rule exI [of _ r], rule exI [of _ rc])
      apply (simp add: run)
      done
    then show ?thesis ..
  next
    case head_ok: Fulfilled
    show ?thesis
    proof (cases "delay (dungeonDelayMs config)")
      case (Rejected e)
      obtain r s2 where w2:
        "write_chunk writer (encodeChunk (generateErrorChunk (errorMessageOf e))) s1 = (r, s2)"
        by (cases "write_chunk writer (encodeChunk (generateErrorChunk (errorMessageOf e))) s1")
      obtain rc s3 where c: "close writer s2 = (rc, s3)"
        by (cases "close writer s2")
      note run = run_delay_rejected [where delay = delay and config = config, OF w1 [unfolded head_ok] Rejected w2 c]
      have ?bad
        apply (rule exI [of _ "[ConsoleLog ''[Quest] Phase 1: Streaming <head> (The Map)'',
                 WriteCall (encodeChunk (generateHeadChunk config)) Fulfilled,
                 ConsoleLog (''[Quest] Phase 2: Entering Dungeon ('' @
                    numberToString (dungeonDelayMs config) @ ''ms delay)'')]"])
        apply (rule exI [of _ "DelayCall (dungeonDelayMs config) (Rejected e)"])
        apply (rule exI [of _ e], rule exI [of _ r], rule exI [of _ rc])
        apply (simp add: run)
        done
      then show ?thesis ..
    next
      case delay_ok: Fulfilled
      obtain r2 s2 where w2:
        "write_chunk writer (encodeChunk (generateBodyChunk config)) s1 = (r2, s2)"
        by (cases "write_chunk writer (encodeChunk (generateBodyChunk config)) s1")
      show ?thesis
      proof (cases r2)
        case (Rejected e)
        obtain r s3 where w3:
          "write_chunk writer (encodeChunk (generateErrorChunk (errorMessageOf e))) s2 = (r, s3)"
          by (cases "write_chunk writer (encodeChunk (generateErrorChunk (errorMessageOf e))) s2")
        obtain rc s4 where c: "close writer s3 = (rc, s4)"
          by (cases "close writer s3")
        note run = run_body_rejected [where delay = delay and config = config, OF w1 [unfolded head_ok] delay_ok w2 [unfolded Rejected] w3 c]
        have ?bad
          apply (rule exI [of _ "[ConsoleLog ''[Quest] Phase 1: Streaming <head> (The Map)'',
                   WriteCall (encodeChunk (generateHeadChunk config)) Fulfilled,
                   ConsoleLog (''[Quest] Phase 2: Entering Dungeon ('' @
                      numberToString (dungeonDelayMs config) @ ''ms delay)''),
                   DelayCall (dungeonDelayMs config) Fulfilled,
                   ConsoleLog ''[Quest] Phase 3: Streaming <body> (The Treasure)'']"])
          apply (rule exI [of _ "WriteCall (encodeChunk (generateBodyChunk config)) (Rejected e)"])
          apply (rule exI [of _ e], rule exI [of _ r], rule exI [of _ rc])
          apply (simp add: run)
          done
        then show ?thesis ..
      next
        case body_ok: Fulfilled
        obtain rc s3 where c: "close writer s2 = (rc, s3)"
          by (cases "close writer s2")
        note run = run_all_fulfilled [where delay = delay and config = config, OF w1 [unfolded head_ok] delay_ok w2 [unfolded body_ok] c]
        have ?good
          by (rule exI [of _ rc]) (simp add: run)
        then show ?thesis ..
      qed
    qed
  qed
  from iff shape show ?thesis ..
qed

subsection \<open>Closing and ordering\<close>

text \<open>
  C3. Whatever the delay and the writer's methods do (also when the head write, the
  delay, the body write or the error write throws), a run of the streaming routine calls
  the writer's \<open>close\<close> exactly once, and that call is the last thing the run does. The
  call is a call of the writer's own method: every call of the log settled the way the
  writer's method settles on the state the calls before it left, and the state at the end
  of the run is the writer's state after all the calls of the log, \<open>close\<close> last.
\<close>

theorem close_once_last:
  "length (filter is_close (trace (streamQuestContent_with delay writer config s))) = 1
   \<and> is_close (last (trace (streamQuestContent_with delay writer config s)))
   \<and> settled_as_logged delay writer s (trace (streamQuestContent_with delay writer config s))
   \<and> final (streamQuestContent_with delay writer config s)
       = apply_calls writer s (trace (streamQuestContent_with delay writer config s))
   \<and> (\<exists>before rc s'. trace (streamQuestContent_with delay writer config s) = before @ [CloseCall rc]
         \<and> s' = apply_calls writer s before
         \<and> rc = fst (close writer s')
         \<and> final (streamQuestContent_with delay writer config s) = snd (close writer s'))"
proof -
  let ?R = "streamQuestContent_with delay writer config s"
  obtain r1 s1 where w1:
    "write_chunk writer (encodeChunk (generateHeadChunk config)) s = (r1, s1)"
    by (cases "write_chunk writer (encodeChunk (generateHeadChunk config)) s")
  show ?thesis
  proof (cases r1)
    case (Rejected e)
    obtain r s2 where w2:
      "write_chunk writer (encodeChunk (generateErrorChunk (errorMessageOf e))) s1 = (r, s2)"
      by (cases "write_chunk writer (encodeChunk (generateErrorChunk (errorMessageOf e))) s1")
    obtain rc s3 where c: "close writer s2 = (rc, s3)"
      by (cases "close writer s2")
    note run = run_head_rejected [OF w1 [unfolded Rejected] w2 c, of delay]
    show ?thesis
      using w1 Rejected w2 c by (simp add: run append_eq_Cons_conv)
  next
    case head_ok: Fulfilled
    show ?thesis
    proof (cases "delay (dungeonDelayMs config)")
      case (Rejected e)
      obtain r s2 where w2:
        "write_chunk writer (encodeChunk (generateErrorChunk (errorMessageOf e))) s1 = (r, s2)"
        by (cases "write_chunk writer (encodeChunk (generateErrorChunk (errorMessageOf e))) s1")
      obtain rc s3 where c: "close writer s2 = (rc, s3)"
        by (cases "close writer s2")
      note run = run_delay_rejected [where delay = delay and config = config, OF w1 [unfolded head_ok] Rejected w2 c]
      show ?thesis
        using w1 head_ok Rejected w2 c by (simp add: run append_eq_Cons_conv)
    next
      case delay_ok: Fulfilled
      obtain r2 s2 where w2:
        "write_chunk writer (encodeChunk (generateBodyChunk config)) s1 = (r2, s2)"
        by (cases "write_chunk writer (encodeChunk (generateBodyChunk config)) s1")
      show ?thesis
      proof (cases r2)
        case (Rejected e)
        obtain r s3 where w3:
          "write_chunk writer (encodeChunk (generateErrorChunk (errorMessageOf e))) s2 = (r, s3)"
          by (cases "write_chunk writer (encodeChunk (generateErrorChunk (errorMessageOf e))) s2")
        obtain rc s4 where c: "close writer s3 = (rc, s4)"
          by (cases "close writer s3")
        note run = run_body_rejected [where delay = delay and config = config, OF w1 [unfolded head_ok] delay_ok w2 [unfolded Rejected] w3 c]
        show ?thesis
          using w1 head_ok delay_ok w2 Rejected w3 c by (simp add: run append_eq_Cons_conv)
      next
        case body_ok: Fulfilled
        obtain rc s3 where c: "close writer s2 = (rc, s3)"
          by (cases "close writer s2")
        note run = run_all_fulfilled [where delay = delay and config = config, OF w1 [unfolded head_ok] delay_ok w2 [unfolded body_ok] c]
        show ?thesis
          using w1 head_ok delay_ok w2 body_ok c by (simp add: run append_eq_Cons_conv)
      qed
    qed
  qed
qed

text \<open>
  C4. In every run the first call on the writer is the write of the head chunk (only a
  console line precedes it), so a body or error chunk is never written before it; and
  \<open>close\<close> is the final call, with no \<open>close\<close> among the calls between the two, so it
  never comes before the last content chunk.
\<close>

theorem write_order:
  "\<exists>r0 mid rc. trace (streamQuestContent_with delay writer config s) =
      [ConsoleLog ''[Quest] Phase 1: Streaming <head> (The Map)'',
       WriteCall (encodeChunk (generateHeadChunk config)) r0] @ mid @ [CloseCall rc]
    \<and> filter is_close mid = []"
  by (auto simp add: streamQuestContent_with_def task_defs split: prod.splits settled.splits)

section \<open>The channel\<close>

text \<open>
  C5, as the specification states it: \<open>close\<close> is safe to call a second time. The writer
  of \<open>createStreamingPipeline\<close> only awaits the raw writer's \<open>close\<close>; on the fresh
  stream of a pipeline the first \<open>close\<close> resolves and the second rejects with a
  \<open>TypeError\<close>.
\<close>

theorem second_close_counterexample:
  "fst (close (pipeline_writer createStreamingPipeline)
         (pipeline_readable createStreamingPipeline)) = Fulfilled
   \<and> rejects_with_TypeError
        (fst (close (pipeline_writer createStreamingPipeline)
               (snd (close (pipeline_writer createStreamingPipeline)
                       (pipeline_readable createStreamingPipeline)))))"
  by (simp add: createStreamingPipeline_def rawWriter_close_def new_TransformStream_def)

text \<open>
  C5, amended: the writer's \<open>close\<close> has no guard of its own and settles as the raw
  writer's \<open>close\<close> does. It resolves exactly on a stream that is still writable, which
  is also where a write resolves. A \<open>close\<close> right after a write resolves exactly when
  that write resolved, so after a failed write \<open>close\<close> rejects. Of two calls of
  \<open>close\<close> in a row the second never resolves: it rejects with the stored reason on an
  errored stream and with a \<open>TypeError\<close> otherwise. The caller has to handle these
  rejections.
\<close>

theorem close_not_idempotent:
  "close (pipeline_writer createStreamingPipeline) ts = rawWriter_close ts
   \<and> (fst (close (pipeline_writer createStreamingPipeline) ts) = Fulfilled) = (state ts = Writable)
   \<and> (fst (write_chunk (pipeline_writer createStreamingPipeline) chunk ts) = Fulfilled)
       = (state ts = Writable)
   \<and> (fst (close (pipeline_writer createStreamingPipeline)
              (snd (write_chunk (pipeline_writer createStreamingPipeline) chunk ts))) = Fulfilled)
       = (fst (write_chunk (pipeline_writer createStreamingPipeline) chunk ts) = Fulfilled)
   \<and> (case state ts of
         Errored reason \<Rightarrow>
           fst (close (pipeline_writer createStreamingPipeline)
                 (snd (close (pipeline_writer createStreamingPipeline) ts))) = Rejected reason
       | _ \<Rightarrow>
           rejects_with_TypeError
             (fst (close (pipeline_writer createStreamingPipeline)
                    (snd (close (pipeline_writer createStreamingPipeline) ts)))))"
  by (cases "state ts")
     (simp_all add: createStreamingPipeline_def rawWriter_close_def rawWriter_write_def)

section \<open>The responses\<close>

text \<open>
  C6. The response of the streaming handler has status 200 and carries
  \<open>Content-Type: text/html; charset=utf-8\<close>, \<open>X-Content-Type-Options: nosniff\<close> and
  \<open>Cache-Control: no-store\<close>, for every request, environment and config. It is built
  before the streaming routine has run and is the same over every pipeline, so no failure
  of the writer changes it.
\<close>

theorem stream_response_contract:
  "status (response (handleStreamQuest_with createPipeline request env config)) = 200
   \<and> map_of (headers (response (handleStreamQuest_with createPipeline request env config)))
        ''Content-Type'' = Some ''text/html; charset=utf-8''
   \<and> map_of (headers (response (handleStreamQuest_with createPipeline request env config)))
        ''X-Content-Type-Options'' = Some ''nosniff''
   \<and> map_of (headers (response (handleStreamQuest_with createPipeline request env config)))
        ''Cache-Control'' = Some ''no-store''
   \<and> response (handleStreamQuest_with createPipeline request env config)
       = response (handleStreamQuest request' env' config')"
  by (simp add: handleStreamQuest_def handleStreamQuest_with_def new_Response_def
        RESPONSE_HEADERS_def)

lemma fullpage_prefix: "prefix ''<!DOCTYPE html>'' (generateFullPageHTML config dbTime)"
  unfolding generateFullPageHTML_def
  by (rule prefix_prefix) simp

lemma fullpage_suffix: "suffix ''</html>'' (generateFullPageHTML config dbTime)"
  unfolding generateFullPageHTML_def
  by (intro suffix_appendI suffix_order.refl)

text \<open>
  C8. The non-streaming handler awaits the delay of \<open>dungeonDelayMs\<close> and only then
  builds its response: it goes on no sooner than \<open>dungeonDelayMs\<close> milliseconds after
  its first reading of the clock (exactly the timer's delay, \<open>dungeonDelayMs\<close> or 0 for
  a negative one, and the lateness of the platform), and, with the delay as a parameter,
  there is a response exactly when the awaited delay resolved. The response has status
  200, the three headers of the contract and no other, and as its body one string, the
  full page from \<open><!DOCTYPE html>\<close> to \<open></html>\<close>, which reports the time waited.
\<close>

theorem no_stream_contract:
  "did (handleNoStreamQuest clock request env config) =
     [ConsoleLog ''[No-Stream Quest] Starting - will wait for all data before responding'',
      DelayCall (dungeonDelayMs config) Fulfilled,
      ConsoleLog (''[No-Stream Quest] Database query complete after '' @
                  numberToString (max 0 (dungeonDelayMs config) + int (snd clock)) @ ''ms'')]
   \<and> respondedAt (handleNoStreamQuest clock request env config)
       = fst clock + max 0 (dungeonDelayMs config) + int (snd clock)
   \<and> fst clock + dungeonDelayMs config \<le> respondedAt (handleNoStreamQuest clock request env config)
   \<and> (\<exists>html. settles (handleNoStreamQuest clock request env config) =
         Inr \<lparr>status = 200,
              headers = [(''Content-Type'', ''text/html; charset=utf-8''),
                         (''X-Content-Type-Options'', ''nosniff''),
                         (''Cache-Control'', ''no-store'')],
              body = StringBody html\<rparr>
        \<and> html = generateFullPageHTML config
                   (respondedAt (handleNoStreamQuest clock request env config) - fst clock)
        \<and> prefix ''<!DOCTYPE html>'' html \<and> suffix ''</html>'' html)
   \<and> (\<exists>resp. settles (handleNoStreamQuest_with delay clock request env config) = Inr resp)
       = (settlesAs (delay (dungeonDelayMs config)) = Fulfilled)
   \<and> respondedAt (handleNoStreamQuest_with delay clock request env config)
       = fst clock + int (firesAfterMs (delay (dungeonDelayMs config))) + int (snd clock)"
  by (cases "settlesAs (delay (dungeonDelayMs config))")
     (simp_all add: handleNoStreamQuest_def handleNoStreamQuest_with_def new_Response_def
        simulateDungeonDelay_def setTimeout_def Let_def fullpage_prefix fullpage_suffix)

text \<open>
  C9. The response of the streaming handler carries four headers, \<open>Transfer-Encoding:
  chunked\<close> besides the three of the contract; the response of the non-streaming handler
  has no \<open>Transfer-Encoding\<close> header.
\<close>

theorem chunked_header_only_when_streaming:
  "headers (response (handleStreamQuest request env config)) =
     [(''Content-Type'', ''text/html; charset=utf-8''),
      (''Transfer-Encoding'', ''chunked''),
      (''X-Content-Type-Options'', ''nosniff''),
      (''Cache-Control'', ''no-store'')]
   \<and> (\<exists>resp. settles (handleNoStreamQuest clock request' env' config') = Inr resp
        \<and> map_of (headers resp) ''Transfer-Encoding'' = None)"
  by (simp add: handleStreamQuest_def handleStreamQuest_with_def new_Response_def
        RESPONSE_HEADERS_def handleNoStreamQuest_def handleNoStreamQuest_with_def
        simulateDungeonDelay_def setTimeout_def Let_def)

section \<open>The two settings\<close>

lemma head_chunk_ignores_armor:
  "generateHeadChunk (config\<lparr>armorDownloadMs := a\<rparr>) = generateHeadChunk config"
  by (simp add: generateHeadChunk_def)

text \<open>
  C7. \<open>armorDownloadMs\<close> is display text only. Take a config and the same config with
  another \<open>armorDownloadMs\<close>, and a writer whose calls settle without regard to the bytes
  written (\<open>view\<close> is the part of its state that decides how a call settles). Then the
  head chunk is the same, the two runs consist of the same calls in the same order with
  the same delay and the same settlements, differing at most in the bytes of a written
  chunk, and the two promises settle alike.
\<close>

theorem armor_is_display_only:
  fixes writer :: "'s StreamWriter" and view :: "'s \<Rightarrow> 'v"
  assumes W: "\<And>c c' s s'. view s = view s' \<Longrightarrow>
                fst (write_chunk writer c s) = fst (write_chunk writer c' s')
                \<and> view (snd (write_chunk writer c s)) = view (snd (write_chunk writer c' s'))"
      and C: "\<And>s s'. view s = view s' \<Longrightarrow> fst (close writer s) = fst (close writer s')"
  shows "generateHeadChunk (config\<lparr>armorDownloadMs := a\<rparr>) = generateHeadChunk config
     \<and> map without_text
           (trace (streamQuestContent_with delay writer (config\<lparr>armorDownloadMs := a\<rparr>) s))
       = map without_text (trace (streamQuestContent_with delay writer config s))
     \<and> promise (streamQuestContent_with delay writer (config\<lparr>armorDownloadMs := a\<rparr>) s)
       = promise (streamQuestContent_with delay writer config s)"
proof -
  let ?config' = "config\<lparr>armorDownloadMs := a\<rparr>"
  note defs = streamQuestContent_with_def task_defs head_chunk_ignores_armor
  have F1: "r' = r \<and> view t' = view t"
    if "view s = view s'" "write_chunk writer c s = (r, t)" "write_chunk writer c' s' = (r', t')"
    for c c' s s' r t r' t'
    using W [OF that(1), of c c'] that(2,3) by simp
  have F2: "r' = r"
    if "view s = view s'" "close writer s = (r, t)" "close writer s' = (r', t')"
    for s s' r t r' t'
    using C [OF that(1)] that(2,3) by simp
  obtain r1 s1 where w1:
    "write_chunk writer (encodeChunk (generateHeadChunk config)) s = (r1, s1)"
    by (cases "write_chunk writer (encodeChunk (generateHeadChunk config)) s")
  have same: ?thesis
    if "promise (streamQuestContent_with delay writer ?config' s)
        = promise (streamQuestContent_with delay writer config s)"
       "trace (streamQuestContent_with delay writer ?config' s)
        = trace (streamQuestContent_with delay writer config s)"
    using that by (simp add: head_chunk_ignores_armor)
  show ?thesis
  proof (cases r1)
    case (Rejected e)
    with w1 show ?thesis
      by (intro same) (simp_all add: defs split: prod.splits)
  next
    case head_ok: Fulfilled
    show ?thesis
    proof (cases "delay (dungeonDelayMs config)")
      case (Rejected e)
      with w1 head_ok show ?thesis
        by (intro same) (simp_all add: defs split: prod.splits)
    next
      case delay_ok: Fulfilled
      obtain r2 s2 where w2:
        "write_chunk writer (encodeChunk (generateBodyChunk config)) s1 = (r2, s2)"
        by (cases "write_chunk writer (encodeChunk (generateBodyChunk config)) s1")
      obtain r2' s2' where w2':
        "write_chunk writer (encodeChunk (generateBodyChunk ?config')) s1 = (r2', s2')"
        by (cases "write_chunk writer (encodeChunk (generateBodyChunk ?config')) s1")
      from F1 [OF refl w2 w2'] have e2: "r2' = r2" "view s2 = view s2'" by simp_all
      show ?thesis
      proof (cases r2)
        case body_ok: Fulfilled
        obtain r3 s3 where c3: "close writer s2 = (r3, s3)"
          by (cases "close writer s2")
        obtain r3' s3' where c3': "close writer s2' = (r3', s3')"
          by (cases "close writer s2'")
        from F2 [OF e2(2) c3 c3'] have "r3' = r3" .
        with w1 head_ok delay_ok w2 w2' e2 body_ok c3 c3' show ?thesis
          by (cases r3) (simp_all add: defs)
      next
        case (Rejected e)
        let ?err = "encodeChunk (generateErrorChunk (errorMessageOf e))"
        obtain r3 s3 where w3: "write_chunk writer ?err s2 = (r3, s3)"
          by (cases "write_chunk writer ?err s2")
        obtain r3' s3' where w3': "write_chunk writer ?err s2' = (r3', s3')"
          by (cases "write_chunk writer ?err s2'")
        from F1 [OF e2(2) w3 w3'] have e3: "r3' = r3" "view s3 = view s3'" by simp_all
        obtain r4 s4 where c4: "close writer s3 = (r4, s4)"
          by (cases "close writer s3")
        obtain r4' s4' where c4': "close writer s3' = (r4', s4')"
          by (cases "close writer s3'")
        from F2 [OF e3(2) c4 c4'] have "r4' = r4" .
        with w1 head_ok delay_ok w2 w2' e2 Rejected w3 w3' e3 c4 c4' show ?thesis
          by (cases r4) (simp_all add: defs)
      qed
    qed
  qed
qed

theorem armor_is_display_only_witness:
  "generateHeadChunk (DEFAULT_QUEST_CONFIG\<lparr>armorDownloadMs := 1\<rparr>)
     = generateHeadChunk DEFAULT_QUEST_CONFIG
   \<and> map without_text
         (trace (streamQuestContent_with (\<lambda>ms. Fulfilled) (pipeline_writer createStreamingPipeline)
                   (DEFAULT_QUEST_CONFIG\<lparr>armorDownloadMs := 1\<rparr>) new_TransformStream))
     = map without_text
         (trace (streamQuestContent_with (\<lambda>ms. Fulfilled) (pipeline_writer createStreamingPipeline)
                   DEFAULT_QUEST_CONFIG new_TransformStream))
   \<and> promise (streamQuestContent_with (\<lambda>ms. Fulfilled) (pipeline_writer createStreamingPipeline)
                (DEFAULT_QUEST_CONFIG\<lparr>armorDownloadMs := 1\<rparr>) new_TransformStream)
     = promise (streamQuestContent_with (\<lambda>ms. Fulfilled) (pipeline_writer createStreamingPipeline)
                DEFAULT_QUEST_CONFIG new_TransformStream)"
proof -
  let ?w = "pipeline_writer createStreamingPipeline"
  have W: "fst (write_chunk ?w c s) = fst (write_chunk ?w c' s')
           \<and> state (snd (write_chunk ?w c s)) = state (snd (write_chunk ?w c' s'))"
    if "state s = state s'" for c c' s s'
    using that
    by (simp add: createStreamingPipeline_def rawWriter_write_def split: stream_state.splits)
  have C: "fst (close ?w s) = fst (close ?w s')" if "state s = state s'" for s s'
    using that
    by (simp add: createStreamingPipeline_def rawWriter_close_def split: stream_state.splits)
  show ?thesis
    by (rule armor_is_display_only [of state ?w, OF W C])
qed

section \<open>The delay\<close>

text \<open>
  C10. \<open>simulateDungeonDelay\<close> resolves for every number of milliseconds, negative ones
  and 0 included, and never rejects. So in a run of the streaming routine the awaited
  delay is never the call that rejected, and whenever the catch clause is entered, what it
  caught was thrown by the chunk write just before it.
\<close>

theorem delay_always_resolves:
  "settlesAs (simulateDungeonDelay ms) = Fulfilled
   \<and> list_all delay_fulfilled (trace (streamQuestContent writer config s))
   \<and> (\<forall>m e. ConsoleError m e \<in> set (trace (streamQuestContent writer config s)) \<longrightarrow>
         (\<exists>pre c post. trace (streamQuestContent writer config s) =
             pre @ [WriteCall c (Rejected e), ConsoleError m e] @ post))"
proof (intro conjI allI impI)
  show "settlesAs (simulateDungeonDelay ms) = Fulfilled"
    by (simp add: simulateDungeonDelay_def setTimeout_def)
  show "list_all delay_fulfilled (trace (streamQuestContent writer config s))"
    by (auto simp add: run_defs split: prod.splits settled.splits)
next
  fix m e
  assume "ConsoleError m e \<in> set (trace (streamQuestContent writer config s))"
  then show "\<exists>pre c post. trace (streamQuestContent writer config s) =
             pre @ [WriteCall c (Rejected e), ConsoleError m e] @ post"
    by (auto simp add: run_defs Cons_eq_append_conv append_eq_Cons_conv
             split: prod.splits settled.splits)
qed

theorem delay_always_resolves_witness:
  "ConsoleError ''[Quest] Error during streaming:'' (ErrorInstance ''boom'')
     \<in> set (trace (streamQuestContent first_write_fails DEFAULT_QUEST_CONFIG 0))
   \<and> (\<exists>pre c post. trace (streamQuestContent first_write_fails DEFAULT_QUEST_CONFIG 0) =
         pre @ [WriteCall c (Rejected (ErrorInstance ''boom'')),
                ConsoleError ''[Quest] Error during streaming:'' (ErrorInstance ''boom'')] @ post)"
proof -
  have h: "ConsoleError ''[Quest] Error during streaming:'' (ErrorInstance ''boom'')
     \<in> set (trace (streamQuestContent first_write_fails DEFAULT_QUEST_CONFIG 0))"
    by (simp add: run_defs first_write_fails_def errorMessageOf_def)
  show ?thesis
    using h delay_always_resolves [of 0 first_write_fails DEFAULT_QUEST_CONFIG 0] by blast
qed

end
